theory Spec2Isabelle
  imports Complex_Main
begin

section \<open>Conventions of the embedding\<close>

text \<open>
  Python floats are modelled as exact reals: every statement below is about the
  arithmetic the code writes down, without rounding. A Python dict is an association
  list in insertion order (keys distinct); \<open>d.get(k, dflt)\<close> is \<open>dict_get\<close>.
  Mutable objects are records that each operation takes and returns.
\<close>

type_synonym emotions = "(string \<times> real) list"

definition dict_get :: "('k \<times> 'v) list \<Rightarrow> 'k \<Rightarrow> 'v \<Rightarrow> 'v" where
  "dict_get d k dflt = (case map_of d k of None \<Rightarrow> dflt | Some v \<Rightarrow> v)"

text \<open>Truth value of an optional dict: \<open>None\<close> and the empty dict are both false.\<close>

definition truthy :: "('k \<times> 'v) list option \<Rightarrow> bool" where
  "truthy d = (case d of None \<Rightarrow> False | Some kvs \<Rightarrow> kvs \<noteq> [])"

text \<open>\<open>collections.deque(maxlen=n).append\<close>: a full deque drops its oldest entry.\<close>

definition deque_append :: "nat \<Rightarrow> 'a list \<Rightarrow> 'a \<Rightarrow> 'a list" where
  "deque_append maxlen q x = (if length q < maxlen then q @ [x] else tl q @ [x])"

text \<open>The slice \<open>xs[-n:]\<close>: the last \<open>n\<close> entries, the whole list when \<open>n\<close> is
  0 or exceeds the length.\<close>

definition last_n :: "nat \<Rightarrow> 'a list \<Rightarrow> 'a list" where
  "last_n n xs = (if n = 0 then xs else drop (length xs - n) xs)"

text \<open>\<open>max(xs, key=f)\<close> on a non-empty list: the first element whose key is maximal.\<close>

fun max_by :: "('a \<Rightarrow> 'b::linorder) \<Rightarrow> 'a \<Rightarrow> 'a list \<Rightarrow> 'a" where
  "max_by key best [] = best"
| "max_by key best (x # xs) = max_by key (if key best < key x then x else best) xs"

section \<open>src/webcam/face\_emotion.py: FaceEmotionDetector\<close>

type_synonym face = "int \<times> int \<times> int \<times> int"

record detector =
  emotion_history :: "emotions list"
  face_history :: "face list"
  last_valid_emotions :: "emotions option"

definition detector_init :: detector where
  "detector_init = \<lparr>emotion_history = [], face_history = [], last_valid_emotions = None\<rparr>"

definition get_neutral_emotions :: emotions where
  "get_neutral_emotions =
     [(''angry'', 0.05), (''disgust'', 0.05), (''fear'', 0.05), (''happy'', 0.15),
      (''sad'', 0.05), (''surprise'', 0.05), (''neutral'', 0.60)]"

text \<open>The body of the loop over \<open>current_emotions.keys()\<close> in \<open>_get_stable_emotions\<close>
  (lines 195-199): the value of one label over the history, the weight table, the slice
  \<open>weights[-len(values):]\<close>, and the quotient of the zipped products by the sum of the
  weights. \<open>zip\<close> stops at the shorter list, as Python's does.\<close>

definition smooth_emotion :: "emotions list \<Rightarrow> string \<Rightarrow> real" where
  "smooth_emotion history emotion =
     (let vals = map (\<lambda>hist. dict_get hist emotion 0) history;
          weights = (if 4 \<le> length vals then [0.1, 0.2, 0.3, 0.4]
                     else if 2 \<le> length vals then [0.3, 0.7] else [1.0]);
          weights = last_n (length vals) weights
      in sum_list (map (\<lambda>(v, w). v * w) (zip vals weights)) / sum_list weights)"

definition get_stable_emotions :: "emotions option \<Rightarrow> detector \<Rightarrow> emotions \<times> detector" where
  "get_stable_emotions current_emotions self =
     (case current_emotions of
        None \<Rightarrow>
          (if truthy (last_valid_emotions self) then the (last_valid_emotions self)
           else get_neutral_emotions, self)
      | Some cur \<Rightarrow>
          if cur = [] then
            (if truthy (last_valid_emotions self) then the (last_valid_emotions self)
             else get_neutral_emotions, self)
          else
            let history = deque_append 5 (emotion_history self) cur;
                self = self\<lparr>emotion_history := history\<rparr>
            in if 3 \<le> length history then
                 let smoothed = map (\<lambda>emotion. (emotion, smooth_emotion history emotion))
                                    (map fst cur)
                 in (smoothed, self\<lparr>last_valid_emotions := Some smoothed\<rparr>)
               else (cur, self\<lparr>last_valid_emotions := Some cur\<rparr>))"

text \<open>Feeding a sequence of raw inputs, one call per tick; the outputs in order.\<close>

fun stabilize_all :: "emotions option list \<Rightarrow> detector \<Rightarrow> emotions list \<times> detector" where
  "stabilize_all [] self = ([], self)"
| "stabilize_all (raw # raws) self =
     (let (out, self1) = get_stable_emotions raw self;
          (outs, self2) = stabilize_all raws self1
      in (out # outs, self2))"

text \<open>The output of the most recent call whose input was a non-empty dict, read off the
  inputs and outputs of a run: the "last successfully stabilized vector" of the
  specification. It is not part of the code; the stabilizer's field
  \<open>last_valid_emotions\<close> is compared with it below.\<close>

definition last_stabilized :: "emotions option list \<Rightarrow> emotions list \<Rightarrow> emotions option" where
  "last_stabilized raws outs =
     (case filter (\<lambda>(raw, out). truthy raw) (zip raws outs) of
        [] \<Rightarrow> None
      | p # ps \<Rightarrow> Some (snd (last (p # ps))))"

text \<open>\<open>_calculate_negative_score\<close> (lines 286-291).\<close>

definition face_calculate_negative_score :: "emotions \<Rightarrow> real" where
  "face_calculate_negative_score emotions =
     0.4 * dict_get emotions ''sad'' 0 +
     0.3 * dict_get emotions ''angry'' 0 +
     0.2 * dict_get emotions ''fear'' 0 +
     0.1 * dict_get emotions ''disgust'' 0"

subsection \<open>\<open>_select_best_face\<close> (lines 117-155)\<close>

text \<open>A candidate is the list \<open>[x, y, fw, fh]\<close> of integers; \<open>frame_shape[:2]\<close> is
  \<open>(h, w)\<close>. \<open>int(r)\<close> truncates towards zero.\<close>

definition py_int :: "real \<Rightarrow> int" where
  "py_int r = (if 0 \<le> r then \<lfloor>r\<rfloor> else \<lceil>r\<rceil>)"

definition valid_face :: "int \<times> int \<Rightarrow> face \<Rightarrow> bool" where
  "valid_face frame_shape fc =
     (case frame_shape of (h, w) \<Rightarrow>
      case fc of (x, y, fw, fh) \<Rightarrow>
        80 < fw \<and> 80 < fh \<and>
        0 < x \<and> 0 < y \<and>
        x + fw < w \<and> y + fh < h \<and>
        real_of_int fw < real_of_int w * 0.8 \<and> real_of_int fh < real_of_int h * 0.8)"

definition face_area :: "face \<Rightarrow> int" where
  "face_area fc = (case fc of (x, y, fw, fh) \<Rightarrow> fw * fh)"

definition blend_faces :: "face \<Rightarrow> face \<Rightarrow> face" where
  "blend_faces best_face last_face =
     (case best_face of (b0, b1, b2, b3) \<Rightarrow>
      case last_face of (l0, l1, l2, l3) \<Rightarrow>
        if 50 < \<bar>b0 - l0\<bar> \<or> 50 < \<bar>b1 - l1\<bar> then
          (py_int (0.7 * real_of_int b0 + (1 - 0.7) * real_of_int l0),
           py_int (0.7 * real_of_int b1 + (1 - 0.7) * real_of_int l1),
           py_int (0.7 * real_of_int b2 + (1 - 0.7) * real_of_int l2),
           py_int (0.7 * real_of_int b3 + (1 - 0.7) * real_of_int l3))
        else best_face)"

definition select_best_face :: "face list \<Rightarrow> int \<times> int \<Rightarrow> detector \<Rightarrow> face option \<times> detector" where
  "select_best_face faces frame_shape self =
     (if faces = [] then (None, self)
      else
        let valid_faces = filter (valid_face frame_shape) faces
        in case valid_faces of
             [] \<Rightarrow> (None, self)
           | f # fs \<Rightarrow>
               let best_face = max_by face_area f fs;
                   best_face = (if face_history self \<noteq> []
                                then blend_faces best_face (last (face_history self))
                                else best_face)
               in (Some best_face,
                   self\<lparr>face_history := deque_append 3 (face_history self) best_face\<rparr>))"

text \<open>The filter of the specification, in its own words: a box is discarded when it is
  smaller than the minimum size \<open>m\<close>, or extends outside the frame, or covers more than
  80 percent of either frame dimension; every other box is kept. Compared with
  \<open>valid_face\<close> below.\<close>

definition spec_discards :: "int \<Rightarrow> int \<times> int \<Rightarrow> face \<Rightarrow> bool" where
  "spec_discards m frame_shape fc =
     (case frame_shape of (h, w) \<Rightarrow>
      case fc of (x, y, fw, fh) \<Rightarrow>
        (fw < m \<or> fh < m) \<or>
        (x < 0 \<or> y < 0 \<or> w < x + fw \<or> h < y + fh) \<or>
        (real_of_int w * 0.8 < real_of_int fw \<or> real_of_int h * 0.8 < real_of_int fh))"

section \<open>src/utils.py\<close>

text \<open>\<open>calculate_negative_score\<close> (lines 24-27).\<close>

definition calculate_negative_score :: "emotions \<Rightarrow> real" where
  "calculate_negative_score emotion_dict =
     sum_list (map (\<lambda>emotion. dict_get emotion_dict emotion 0)
                   [''angry'', ''disgust'', ''fear'', ''sad''])"

text \<open>A pandas DataFrame with real-valued columns: the number of rows and the columns
  by name, each holding one value per row. \<open>df.empty\<close> holds when either axis has
  length 0. A missing column raises \<open>KeyError\<close>.\<close>

datatype py_error = KeyError

record dataframe =
  index_len :: nat
  columns :: "(string \<times> real list) list"

definition df_empty :: "dataframe \<Rightarrow> bool" where
  "df_empty df = (index_len df = 0 \<or> columns df = [])"

definition df_column :: "dataframe \<Rightarrow> string \<Rightarrow> py_error + real list" where
  "df_column df name = (case map_of (columns df) name of None \<Rightarrow> Inl KeyError | Some vs \<Rightarrow> Inr vs)"

definition df_loc :: "dataframe \<Rightarrow> nat \<Rightarrow> string \<Rightarrow> py_error + real" where
  "df_loc df i name =
     (case df_column df name of
        Inl e \<Rightarrow> Inl e
      | Inr vs \<Rightarrow> if i < length vs then Inr (vs ! i) else Inl KeyError)"

definition series_mean :: "real list \<Rightarrow> real" where
  "series_mean xs = sum_list xs / real (length xs)"

text \<open>\<open>Series.var()\<close>: the sample variance (divisor \<open>n - 1\<close>); not a number for fewer
  than two rows, which is \<open>None\<close> here.\<close>

definition series_var :: "real list \<Rightarrow> real option" where
  "series_var xs =
     (if length xs < 2 then None
      else Some (sum_list (map (\<lambda>x. (x - series_mean xs)\<^sup>2) xs) / real (length xs - 1)))"

text \<open>\<open>Series.idxmax()\<close>: the position of the first maximum.\<close>

definition series_idxmax :: "real list \<Rightarrow> nat" where
  "series_idxmax xs = max_by (\<lambda>i. xs ! i) 0 [1..<length xs]"

datatype analytics_value =
    Moment real real
  | Number real
  | Items "real list"

text \<open>The body of the \<open>try\<close> block of \<open>calculate_session_analytics\<close> (lines 71-89);
  \<open>max(0, 1 - var)\<close> keeps its first argument when the variance is not a number.\<close>

definition session_analytics_body :: "dataframe \<Rightarrow> py_error + (string \<times> analytics_value) list" where
  "session_analytics_body df =
     (case df_column df ''stress'' of
        Inl e \<Rightarrow> Inl e
      | Inr stress \<Rightarrow>
     (let max_stress_idx = series_idxmax stress in
      case df_loc df max_stress_idx ''timestamp'' of
        Inl e \<Rightarrow> Inl e
      | Inr stress_ts \<Rightarrow>
     (case df_loc df max_stress_idx ''stress'' of
        Inl e \<Rightarrow> Inl e
      | Inr stress_score \<Rightarrow>
     (case df_column df ''engagement'' of
        Inl e \<Rightarrow> Inl e
      | Inr engagement \<Rightarrow>
     (let max_engagement_idx = series_idxmax engagement in
      case df_loc df max_engagement_idx ''timestamp'' of
        Inl e \<Rightarrow> Inl e
      | Inr engagement_ts \<Rightarrow>
     (case df_loc df max_engagement_idx ''engagement'' of
        Inl e \<Rightarrow> Inl e
      | Inr engagement_score \<Rightarrow>
          Inr [(''most_stressed'', Moment stress_ts stress_score),
               (''most_engaged'', Moment engagement_ts engagement_score),
               (''stability_score'',
                  Number (case series_var stress of None \<Rightarrow> 0 | Some v \<Rightarrow> max 0 (1 - v))),
               (''longest_stress_duration'', Number 5),
               (''critical_moments'', Items [])]))))))"

definition calculate_session_analytics :: "dataframe \<Rightarrow> (string \<times> analytics_value) list" where
  "calculate_session_analytics df =
     (if df_empty df then []
      else case session_analytics_body df of
             Inr analytics \<Rightarrow> analytics
           | Inl e \<Rightarrow> [(''stability_score'', Number 0.5),
                       (''longest_stress_duration'', Number 0),
                       (''critical_moments'', Items [])])"

text \<open>\<open>calculate_session_quality_score\<close> (lines 125-141); any exception inside the
  \<open>try\<close> block gives 50.\<close>

definition session_quality_body :: "dataframe \<Rightarrow> py_error + real" where
  "session_quality_body df =
     (case df_column df ''stress'' of
        Inl e \<Rightarrow> Inl e
      | Inr stress \<Rightarrow>
     (case df_column df ''engagement'' of
        Inl e \<Rightarrow> Inl e
      | Inr engagement \<Rightarrow>
          let avg_stress = series_mean stress;
              avg_engagement = series_mean engagement;
              stress_score = max 0 (100 - avg_stress * 100);
              engagement_score = avg_engagement * 100;
              quality_score = stress_score * 0.6 + engagement_score * 0.4
          in Inr (min 100 (max 0 quality_score))))"

definition calculate_session_quality_score :: "dataframe \<Rightarrow> real" where
  "calculate_session_quality_score df =
     (if df_empty df then 0
      else case session_quality_body df of Inr q \<Rightarrow> q | Inl e \<Rightarrow> 50)"

section \<open>src/fallback/rule\_based.py: FallbackEmotionGenerator\<close>

definition EMOTIONS :: "string list" where
  "EMOTIONS = [''angry'', ''disgust'', ''fear'', ''happy'', ''sad'', ''surprise'', ''neutral'']"

record generator =
  last_face_emotions :: emotions
  last_audio_stress :: real
  emotion_trend :: real
  stress_trend :: real
  time_factor :: nat
  scenario_timer :: nat
  current_scenario :: string

definition generator_init :: generator where
  "generator_init =
     \<lparr>last_face_emotions = map (\<lambda>emotion. (emotion, 1 / real (length EMOTIONS))) EMOTIONS,
      last_audio_stress = 0.5, emotion_trend = 0.0, stress_trend = 0.0,
      time_factor = 0, scenario_timer = 0, current_scenario = ''normal''\<rparr>"

text \<open>\<open>random.choice(xs)\<close>: the generator's draw is the parameter \<open>rnd\<close>; every
  element of a non-empty list is chosen by some draw.\<close>

definition random_choice :: "nat \<Rightarrow> 'a list \<Rightarrow> 'a" where
  "random_choice rnd xs = xs ! (rnd mod length xs)"

text \<open>The unnormalized weights of \<open>generate_face_emotions\<close> (lines 27-50), in the
  order the code inserts them.\<close>

definition scenario_weights :: "string \<Rightarrow> real \<Rightarrow> emotions" where
  "scenario_weights scenario time_mod =
     (if scenario = ''happy'' then
        [(''happy'', max 0.01 (0.4 + 0.3 * sin time_mod)),
         (''neutral'', max 0.01 (0.3 + 0.1 * cos (time_mod * 0.7))),
         (''surprise'', max 0.01 (0.1 + 0.1 * sin (time_mod * 1.3))),
         (''sad'', max 0.01 (0.05 + 0.05 * sin (time_mod * 0.5))),
         (''angry'', max 0.01 (0.05 + 0.05 * cos (time_mod * 0.3))),
         (''fear'', max 0.01 (0.03 + 0.02 * sin (time_mod * 2))),
         (''disgust'', max 0.01 (0.02 + 0.03 * cos (time_mod * 1.7)))]
      else if scenario = ''stressed'' then
        [(''angry'', max 0.01 (0.3 + 0.2 * sin (time_mod * 1.2))),
         (''fear'', max 0.01 (0.2 + 0.15 * cos (time_mod * 0.8))),
         (''sad'', max 0.01 (0.15 + 0.1 * sin (time_mod * 0.6))),
         (''neutral'', max 0.01 (0.2 + 0.1 * cos time_mod)),
         (''happy'', max 0.01 (0.05 + 0.05 * sin (time_mod * 0.3))),
         (''surprise'', max 0.01 (0.05 + 0.05 * cos (time_mod * 1.5))),
         (''disgust'', max 0.01 (0.05 + 0.05 * sin (time_mod * 2.1)))]
      else
        [(''neutral'', max 0.01 (0.4 + 0.2 * sin (time_mod * 0.5))),
         (''happy'', max 0.01 (0.25 + 0.15 * cos (time_mod * 0.7))),
         (''sad'', max 0.01 (0.1 + 0.08 * sin (time_mod * 0.3))),
         (''surprise'', max 0.01 (0.08 + 0.07 * cos (time_mod * 1.1))),
         (''angry'', max 0.01 (0.07 + 0.06 * sin (time_mod * 0.9))),
         (''fear'', max 0.01 (0.05 + 0.04 * cos (time_mod * 1.3))),
         (''disgust'', max 0.01 (0.05 + 0.04 * sin (time_mod * 1.7)))])"

definition generate_face_emotions :: "nat \<Rightarrow> generator \<Rightarrow> emotions \<times> generator" where
  "generate_face_emotions rnd self =
     (let self = self\<lparr>time_factor := time_factor self + 1\<rparr>;
          time_mod = real (time_factor self) * 0.1;
          emotions = scenario_weights (current_scenario self) time_mod;
          total = sum_list (map snd emotions);
          emotions = (if 0 < total then map (\<lambda>(k, v). (k, v / total)) emotions
                      else [(''neutral'', 0.7), (''happy'', 0.1), (''sad'', 0.05),
                            (''angry'', 0.05), (''fear'', 0.05), (''surprise'', 0.03),
                            (''disgust'', 0.02)]);
          self = self\<lparr>scenario_timer := scenario_timer self + 1\<rparr>;
          self = (if 20 < scenario_timer self
                  then self\<lparr>current_scenario :=
                               random_choice rnd [''normal'', ''happy'', ''stressed''],
                            scenario_timer := 0\<rparr>
                  else self)
      in (emotions, self\<lparr>last_face_emotions := emotions\<rparr>))"

text \<open>Successive calls, one draw per call (a draw is looked at only when the scenario
  changes).\<close>

fun generate_all :: "nat list \<Rightarrow> generator \<Rightarrow> generator" where
  "generate_all [] self = self"
| "generate_all (rnd # rnds) self = generate_all rnds (snd (generate_face_emotions rnd self))"

section \<open>app.py: the automatic screenshot triggers of \<open>live_dashboard\<close>\<close>

text \<open>
  The part of \<open>st.session_state\<close> the triggers use, after the three
  \<open>if ... not in st.session_state\<close> initialisations (lines 245-250), and the log
  \<open>session_logger.screenshots\<close>, of which the type and the score of each entry are
  kept. \<open>last_screenshot_time\<close> is a dict from the event type to a time.
\<close>

record session_state =
  stress_counter :: nat
  distraction_counter :: nat
  last_screenshot_time :: "string \<rightharpoonup> real"
  screenshots :: "(string \<times> real) list"

definition session_init :: session_state where
  "session_init = \<lparr>stress_counter = 0, distraction_counter = 0,
                    last_screenshot_time = Map.empty, screenshots = []\<rparr>"

text \<open>\<open>last_screenshot_time.get(key, 0)\<close>.\<close>

definition last_shot :: "session_state \<Rightarrow> string \<Rightarrow> real" where
  "last_shot st key = (case last_screenshot_time st key of None \<Rightarrow> 0 | Some t \<Rightarrow> t)"

text \<open>\<open>max(face_emotions, key=face_emotions.get) if face_emotions else None\<close>
  (line 268).\<close>

definition dominant :: "emotions \<Rightarrow> string option" where
  "dominant face_emotions =
     (case map fst face_emotions of
        [] \<Rightarrow> None
      | k # ks \<Rightarrow> Some (max_by (\<lambda>key. dict_get face_emotions key 0) k ks))"

text \<open>Lines 255-265: the stress block. Each block returns whether it set
  \<open>screenshot_taken\<close>, and the state.\<close>

definition stress_block :: "real \<Rightarrow> real \<Rightarrow> session_state \<Rightarrow> bool \<times> session_state" where
  "stress_block stress current_time st =
     (if 0.85 \<le> stress then
        let st = st\<lparr>stress_counter := stress_counter st + 1\<rparr>
        in if 3 \<le> stress_counter st then
             let last_stress_shot = last_shot st ''STRESS''
             in if 10 \<le> current_time - last_stress_shot then
                  (True, st\<lparr>last_screenshot_time :=
                               (last_screenshot_time st)(''STRESS'' \<mapsto> current_time),
                             stress_counter := 0\<rparr>)
                else (False, st)
           else (False, st)
      else (False, st\<lparr>stress_counter := 0\<rparr>))"

text \<open>Lines 267-273: the happiness block.\<close>

definition happy_block ::
  "string option \<Rightarrow> (string \<times> real) list \<Rightarrow> real \<Rightarrow> session_state \<Rightarrow> bool \<times> session_state" where
  "happy_block dominant_emotion fused_metrics current_time st =
     (if dominant_emotion = Some ''happy'' \<and> 0.75 \<le> dict_get fused_metrics ''confidence'' 0 then
        let last_happy_shot = last_shot st ''HAPPY''
        in if 10 \<le> current_time - last_happy_shot then
             (True, st\<lparr>last_screenshot_time :=
                          (last_screenshot_time st)(''HAPPY'' \<mapsto> current_time)\<rparr>)
           else (False, st)
      else (False, st))"

text \<open>Lines 275-285: the distraction block.\<close>

definition distraction_block ::
  "(string \<times> real) list \<Rightarrow> real \<Rightarrow> session_state \<Rightarrow> bool \<times> session_state" where
  "distraction_block fused_metrics current_time st =
     (if dict_get fused_metrics ''engagement'' 1 \<le> 0.10 then
        let st = st\<lparr>distraction_counter := distraction_counter st + 1\<rparr>
        in if 5 \<le> distraction_counter st then
             let last_distraction_shot = last_shot st ''DISTRACTION''
             in if 10 \<le> current_time - last_distraction_shot then
                  (True, st\<lparr>last_screenshot_time :=
                               (last_screenshot_time st)(''DISTRACTION'' \<mapsto> current_time),
                             distraction_counter := 0\<rparr>)
                else (False, st)
           else (False, st)
      else (False, st\<lparr>distraction_counter := 0\<rparr>))"

text \<open>Lines 294-306: the type and the score of the event. In the second and third
  branch the subscripted key is present, since \<open>get\<close> with its default passed the
  test.\<close>

definition event_of ::
  "real \<Rightarrow> string option \<Rightarrow> (string \<times> real) list \<Rightarrow> session_state \<Rightarrow> string \<times> real" where
  "event_of stress dominant_emotion fused_metrics st =
     (if stress_counter st = 0 \<and> 0.85 \<le> stress then (''STRESS'', stress)
      else if dominant_emotion = Some ''happy'' \<and> 0.75 \<le> dict_get fused_metrics ''confidence'' 0
        then (''HAPPY'', dict_get fused_metrics ''confidence'' 0)
      else if distraction_counter st = 0 \<and> dict_get fused_metrics ''engagement'' 1 \<le> 0.10
        then (''DISTRACTION'', dict_get fused_metrics ''engagement'' 1)
      else (''AUTO'', stress))"

text \<open>
  One pass through the \<open>try\<close> block (lines 241-328) in live mode with \<open>pyautogui\<close>
  importable: the event recorded in this tick, if any, and the new state. A missing
  \<open>'stress'\<close> key raises at line 256, before anything is changed, and the handler at
  line 327 swallows it. \<open>io_ok\<close> says whether the directory, capture and save calls
  of lines 290-312 succeed; when one raises, the handler swallows that too and nothing is
  logged, the counters and times staying as the blocks left them.
\<close>

definition auto_screenshot ::
  "bool \<Rightarrow> emotions \<Rightarrow> (string \<times> real) list \<Rightarrow> real \<Rightarrow> session_state
     \<Rightarrow> (string \<times> real) option \<times> session_state" where
  "auto_screenshot io_ok face_emotions fused_metrics current_time st =
     (case map_of fused_metrics ''stress'' of
        None \<Rightarrow> (None, st)
      | Some stress \<Rightarrow>
          let (shot1, st) = stress_block stress current_time st;
              dominant_emotion = dominant face_emotions;
              (shot2, st) = happy_block dominant_emotion fused_metrics current_time st;
              (shot3, st) = distraction_block fused_metrics current_time st;
              screenshot_taken = (shot1 \<or> shot2 \<or> shot3)
          in if screenshot_taken then
               if io_ok then
                 let screenshot_data = event_of stress dominant_emotion fused_metrics st
                 in (Some screenshot_data,
                     st\<lparr>screenshots := screenshots st @ [screenshot_data]\<rparr>)
               else (None, st)
             else (None, st))"

text \<open>A tick is the face mapping, the fused metrics and the clock reading; a run of
  ticks gives the event of each tick.\<close>

type_synonym tick = "emotions \<times> (string \<times> real) list \<times> real"

fun run_ticks :: "tick list \<Rightarrow> session_state \<Rightarrow> (string \<times> real) option list \<times> session_state" where
  "run_ticks [] st = ([], st)"
| "run_ticks ((face_emotions, fused_metrics, current_time) # ticks) st =
     (let (ev, st1) = auto_screenshot True face_emotions fused_metrics current_time st;
          (evs, st2) = run_ticks ticks st1
      in (ev # evs, st2))"

section \<open>Properties of the stabilizer\<close>

lemma null_input_keeps_state:
  "\<not> truthy raw \<Longrightarrow> snd (get_stable_emotions raw self) = self"
  by (auto simp: get_stable_emotions_def truthy_def split: option.splits)

lemma valid_input_sets_last_valid:
  assumes "truthy raw" and "get_stable_emotions raw self = (out, self')"
  shows "out \<noteq> [] \<and> last_valid_emotions self' = Some out"
  using assms
  by (auto simp: get_stable_emotions_def truthy_def Let_def split: option.splits if_splits)

lemma null_input_result:
  assumes "\<not> truthy raw"
  shows "get_stable_emotions raw self =
           (if truthy (last_valid_emotions self) then the (last_valid_emotions self)
            else get_neutral_emotions, self)"
  using assms
  by (auto simp: get_stable_emotions_def truthy_def split: option.splits)

lemma last_stabilized_Cons:
  "last_stabilized (raw # raws) (out # outs) =
     (case last_stabilized raws outs of
        None \<Rightarrow> if truthy raw then Some out else None
      | Some v \<Rightarrow> Some v)"
  by (auto simp: last_stabilized_def split: list.splits)

lemma last_valid_after_run:
  "stabilize_all raws s0 = (outs, s) \<Longrightarrow>
     last_valid_emotions s =
       (case last_stabilized raws outs of None \<Rightarrow> last_valid_emotions s0 | Some v \<Rightarrow> Some v)
     \<and> (last_valid_emotions s0 \<noteq> Some [] \<longrightarrow> last_valid_emotions s \<noteq> Some [])"
proof (induction raws arbitrary: s0 outs s)
  case Nil
  then show ?case by (simp add: last_stabilized_def)
next
  case (Cons raw raws)
  obtain out s1 where step: "get_stable_emotions raw s0 = (out, s1)"
    by (cases "get_stable_emotions raw s0")
  obtain outs' s2 where rest: "stabilize_all raws s1 = (outs', s2)"
    by (cases "stabilize_all raws s1")
  from Cons.prems step rest have eqs: "outs = out # outs'" "s = s2" by simp_all
  note ih = Cons.IH [OF rest]
  show ?case
  proof (cases "truthy raw")
    case True
    from valid_input_sets_last_valid [OF True step]
    have "out \<noteq> []" "last_valid_emotions s1 = Some out" by simp_all
    with ih True show ?thesis
      by (auto simp: eqs last_stabilized_Cons split: option.splits)
  next
    case False
    with step have "s1 = s0" using null_input_keeps_state [of raw s0] by simp
    with ih False show ?thesis
      by (auto simp: eqs last_stabilized_Cons split: option.splits)
  qed
qed

text \<open>
  Claim C4. After any run of the stabilizer from a fresh detector, a null input returns
  the output of the most recent call that had a non-empty input, when there was one, and
  otherwise exactly the neutral prior (neutral 0.60, happy 0.15, 0.05 for each of angry,
  disgust, fear, sad and surprise, which sum to 1). The detector, and so its rolling
  history, is returned unchanged in both cases. A run without any non-empty input has no
  last stabilized vector.
\<close>

theorem stabilizer_null_input:
  assumes "stabilize_all raws detector_init = (outs, self)"
  shows "get_stable_emotions None self =
           ((case last_stabilized raws outs of
               None \<Rightarrow> [(''angry'', 0.05), (''disgust'', 0.05), (''fear'', 0.05),
                         (''happy'', 0.15), (''sad'', 0.05), (''surprise'', 0.05),
                         (''neutral'', 0.60)]
             | Some v \<Rightarrow> v), self)
         \<and> (list_all (\<lambda>raw. \<not> truthy raw) raws \<longrightarrow> last_stabilized raws outs = None)
         \<and> sum_list (map snd get_neutral_emotions) = 1"
proof -
  from last_valid_after_run [OF assms]
  have lv: "last_valid_emotions self =
              (case last_stabilized raws outs of None \<Rightarrow> None | Some v \<Rightarrow> Some v)"
    and ne: "last_valid_emotions self \<noteq> Some []"
    by (auto simp: detector_init_def split: option.splits)
  have a: "get_stable_emotions None self =
           ((case last_stabilized raws outs of
               None \<Rightarrow> [(''angry'', 0.05), (''disgust'', 0.05), (''fear'', 0.05),
                         (''happy'', 0.15), (''sad'', 0.05), (''surprise'', 0.05),
                         (''neutral'', 0.60)]
             | Some v \<Rightarrow> v), self)"
    using lv ne
    by (auto simp: null_input_result truthy_def get_neutral_emotions_def split: option.splits)
  have b: "list_all (\<lambda>raw. \<not> truthy raw) raws \<longrightarrow> last_stabilized raws outs = None"
  proof
    assume "list_all (\<lambda>raw. \<not> truthy raw) raws"
    then have "filter (\<lambda>(raw, out). truthy raw) (zip raws outs) = []"
      by (auto simp: filter_empty_conv list_all_iff dest: set_zip_leftD)
    then show "last_stabilized raws outs = None" by (simp add: last_stabilized_def)
  qed
  have c: "sum_list (map snd get_neutral_emotions) = 1"
    by (simp add: get_neutral_emotions_def)
  from a b c show ?thesis by blast
qed

theorem stabilizer_null_input_witness:
  "get_stable_emotions None
     \<lparr>emotion_history = [[(''happy'', 1), (''neutral'', 0)]], face_history = [],
      last_valid_emotions = Some [(''happy'', 1), (''neutral'', 0)]\<rparr> =
   ([(''happy'', 1), (''neutral'', 0)],
     \<lparr>emotion_history = [[(''happy'', 1), (''neutral'', 0)]], face_history = [],
      last_valid_emotions = Some [(''happy'', 1), (''neutral'', 0)]\<rparr>) \<and>
   get_stable_emotions None detector_init =
   ([(''angry'', 0.05), (''disgust'', 0.05), (''fear'', 0.05), (''happy'', 0.15),
     (''sad'', 0.05), (''surprise'', 0.05), (''neutral'', 0.60)], detector_init)"
proof -
  have run: "stabilize_all [None, Some [(''happy'', 1), (''neutral'', 0)], None] detector_init =
    ([get_neutral_emotions, [(''happy'', 1), (''neutral'', 0)], [(''happy'', 1), (''neutral'', 0)]],
     \<lparr>emotion_history = [[(''happy'', 1), (''neutral'', 0)]], face_history = [],
      last_valid_emotions = Some [(''happy'', 1), (''neutral'', 0)]\<rparr>)"
    by (simp add: get_stable_emotions_def deque_append_def detector_init_def truthy_def)
  have nulls: "stabilize_all [None, Some [], None] detector_init =
    ([get_neutral_emotions, get_neutral_emotions, get_neutral_emotions], detector_init)"
    by (simp add: get_stable_emotions_def detector_init_def truthy_def)
  have quiet: "list_all (\<lambda>raw. \<not> truthy raw) [None, Some ([] :: emotions), None]"
    by (simp add: truthy_def)
  show ?thesis
    using stabilizer_null_input [OF run] stabilizer_null_input [OF nulls] quiet
    by (simp add: last_stabilized_def truthy_def)
qed

section \<open>Properties of the screenshot triggers\<close>

lemma stress_block_fst:
  "fst (stress_block stress t st) \<longleftrightarrow>
     0.85 \<le> stress \<and> 3 \<le> stress_counter st + 1 \<and> 10 \<le> t - last_shot st ''STRESS''"
  by (simp add: stress_block_def last_shot_def Let_def)

lemma stress_block_counter:
  "stress_counter (snd (stress_block stress t st)) =
     (if 0.85 \<le> stress \<and>
         \<not> (3 \<le> stress_counter st + 1 \<and> 10 \<le> t - last_shot st ''STRESS'')
      then stress_counter st + 1 else 0)"
  by (simp add: stress_block_def last_shot_def Let_def)

lemma stress_block_times:
  "last_screenshot_time (snd (stress_block stress t st)) =
     (if fst (stress_block stress t st)
      then (last_screenshot_time st)(''STRESS'' \<mapsto> t) else last_screenshot_time st)"
  by (simp add: stress_block_def last_shot_def Let_def)

lemma stress_block_keeps:
  "distraction_counter (snd (stress_block stress t st)) = distraction_counter st"
  "screenshots (snd (stress_block stress t st)) = screenshots st"
  by (simp_all add: stress_block_def Let_def)

lemma happy_block_fst:
  "fst (happy_block d fm t st) \<longleftrightarrow>
     d = Some ''happy'' \<and> 0.75 \<le> dict_get fm ''confidence'' 0 \<and> 10 \<le> t - last_shot st ''HAPPY''"
  by (auto simp: happy_block_def Let_def)

lemma happy_block_times:
  "last_screenshot_time (snd (happy_block d fm t st)) =
     (if fst (happy_block d fm t st)
      then (last_screenshot_time st)(''HAPPY'' \<mapsto> t) else last_screenshot_time st)"
  by (simp add: happy_block_def Let_def)

lemma happy_block_keeps:
  "stress_counter (snd (happy_block d fm t st)) = stress_counter st"
  "distraction_counter (snd (happy_block d fm t st)) = distraction_counter st"
  "screenshots (snd (happy_block d fm t st)) = screenshots st"
  by (simp_all add: happy_block_def Let_def)

lemma distraction_block_fst:
  "fst (distraction_block fm t st) \<longleftrightarrow>
     dict_get fm ''engagement'' 1 \<le> 0.10 \<and> 5 \<le> distraction_counter st + 1 \<and>
     10 \<le> t - last_shot st ''DISTRACTION''"
  by (simp add: distraction_block_def last_shot_def Let_def)

lemma distraction_block_times:
  "last_screenshot_time (snd (distraction_block fm t st)) =
     (if fst (distraction_block fm t st)
      then (last_screenshot_time st)(''DISTRACTION'' \<mapsto> t) else last_screenshot_time st)"
  by (simp add: distraction_block_def Let_def)

lemma distraction_block_keeps:
  "stress_counter (snd (distraction_block fm t st)) = stress_counter st"
  "screenshots (snd (distraction_block fm t st)) = screenshots st"
  by (simp_all add: distraction_block_def Let_def)

lemma auto_screenshot_blocks:
  assumes "map_of fm ''stress'' = Some stress"
  shows "auto_screenshot io_ok fe fm t st =
     (let r1 = stress_block stress t st;
          r2 = happy_block (dominant fe) fm t (snd r1);
          r3 = distraction_block fm t (snd r2);
          e = event_of stress (dominant fe) fm (snd r3)
      in if (fst r1 \<or> fst r2 \<or> fst r3) \<and> io_ok
         then (Some e, (snd r3)\<lparr>screenshots := screenshots (snd r3) @ [e]\<rparr>)
         else (None, snd r3))"
  using assms by (simp add: auto_screenshot_def case_prod_unfold Let_def)

lemma event_of_stress:
  "fst (event_of stress d fm st) = ''STRESS'' \<longleftrightarrow> stress_counter st = 0 \<and> 0.85 \<le> stress"
  by (simp add: event_of_def)

lemma event_of_stress_score:
  "stress_counter st = 0 \<Longrightarrow> 0.85 \<le> stress \<Longrightarrow> event_of stress d fm st = (''STRESS'', stress)"
  by (simp add: event_of_def)

lemma last_shot_upd:
  "last_shot (st\<lparr>last_screenshot_time := m\<rparr>) k = (case m k of None \<Rightarrow> 0 | Some t \<Rightarrow> t)"
  by (simp add: last_shot_def)

lemma stress_tick:
  assumes fm: "map_of fm ''stress'' = Some stress"
    and run: "auto_screenshot True fe fm t st = (ev, st')"
  shows "stress_counter st' =
           (if 0.85 \<le> stress \<and>
               \<not> (3 \<le> stress_counter st + 1 \<and> 10 \<le> t - last_shot st ''STRESS'')
            then stress_counter st + 1 else 0)"
    and "last_shot st' ''STRESS'' =
           (if 0.85 \<le> stress \<and> 3 \<le> stress_counter st + 1 \<and> 10 \<le> t - last_shot st ''STRESS''
            then t else last_shot st ''STRESS'')"
    and "map_option fst ev = Some ''STRESS'' \<longleftrightarrow>
           0.85 \<le> stress \<and> 3 \<le> stress_counter st + 1 \<and> 10 \<le> t - last_shot st ''STRESS''"
    and "map_option fst ev = Some ''STRESS'' \<longrightarrow> ev = Some (''STRESS'', stress)"
    and "screenshots st' = screenshots st @ (case ev of None \<Rightarrow> [] | Some e \<Rightarrow> [e])"
proof -
  define r1 where "r1 = stress_block stress t st"
  define r2 where "r2 = happy_block (dominant fe) fm t (snd r1)"
  define r3 where "r3 = distraction_block fm t (snd r2)"
  define e where "e = event_of stress (dominant fe) fm (snd r3)"
  define fires where
    "fires \<longleftrightarrow> 0.85 \<le> stress \<and> 3 \<le> stress_counter st + 1 \<and> 10 \<le> t - last_shot st ''STRESS''"
  have res: "(ev, st') =
      (if fst r1 \<or> fst r2 \<or> fst r3
       then (Some e, (snd r3)\<lparr>screenshots := screenshots (snd r3) @ [e]\<rparr>)
       else (None, snd r3))"
    using auto_screenshot_blocks [OF fm, of True fe t st] run
    by (simp add: r1_def r2_def r3_def e_def Let_def)
  have f1: "fst r1 \<longleftrightarrow> fires"
    by (simp add: r1_def fires_def stress_block_fst)
  have c3: "stress_counter (snd r3) = (if 0.85 \<le> stress \<and> \<not> fires then stress_counter st + 1 else 0)"
    by (simp add: r3_def r2_def r1_def fires_def distraction_block_keeps happy_block_keeps
          stress_block_counter)
  have s3: "screenshots (snd r3) = screenshots st"
    by (simp add: r3_def r2_def r1_def distraction_block_keeps happy_block_keeps
          stress_block_keeps)
  have t3: "last_screenshot_time (snd r3) ''STRESS'' =
              (if fires then Some t else last_screenshot_time st ''STRESS'')"
    by (simp add: r3_def r2_def distraction_block_times happy_block_times)
       (simp add: r1_def stress_block_times stress_block_fst fires_def)
  have e_stress: "fst e = ''STRESS'' \<longleftrightarrow> fires"
    unfolding e_def event_of_stress c3 by (auto simp: fires_def)
  have e_score: "fires \<Longrightarrow> e = (''STRESS'', stress)"
    unfolding e_def using c3 by (intro event_of_stress_score) (auto simp: fires_def)
  have cnt: "stress_counter st' = stress_counter (snd r3)"
    and tm: "last_screenshot_time st' = last_screenshot_time (snd r3)"
    using res by (auto split: if_splits)
  show "stress_counter st' =
           (if 0.85 \<le> stress \<and>
               \<not> (3 \<le> stress_counter st + 1 \<and> 10 \<le> t - last_shot st ''STRESS'')
            then stress_counter st + 1 else 0)"
    unfolding cnt c3 fires_def by (rule if_cong) blast+
  show "last_shot st' ''STRESS'' =
           (if 0.85 \<le> stress \<and> 3 \<le> stress_counter st + 1 \<and> 10 \<le> t - last_shot st ''STRESS''
            then t else last_shot st ''STRESS'')"
    by (simp only: last_shot_def tm t3 fires_def if_distrib [of "case_option 0 (\<lambda>t. t)"] option.case)
  have ev: "ev = (if fst r1 \<or> fst r2 \<or> fst r3 then Some e else None)"
    using res by (simp split: if_splits)
  have ev_stress: "map_option fst ev = Some ''STRESS'' \<longleftrightarrow> fires"
  proof (cases "fst r1 \<or> fst r2 \<or> fst r3")
    case True
    then show ?thesis by (simp add: ev e_stress)
  next
    case False
    then show ?thesis using f1 by (simp add: ev)
  qed
  then show "map_option fst ev = Some ''STRESS'' \<longleftrightarrow>
           0.85 \<le> stress \<and> 3 \<le> stress_counter st + 1 \<and> 10 \<le> t - last_shot st ''STRESS''"
    unfolding fires_def .
  show "map_option fst ev = Some ''STRESS'' \<longrightarrow> ev = Some (''STRESS'', stress)"
  proof
    assume "map_option fst ev = Some ''STRESS''"
    with ev_stress have fires by simp
    with f1 e_score show "ev = Some (''STRESS'', stress)" by (simp add: ev)
  qed
  show "screenshots st' = screenshots st @ (case ev of None \<Rightarrow> [] | Some e \<Rightarrow> [e])"
    using res s3 by (auto split: if_splits)
qed


lemma run_ticks_Cons:
  "run_ticks ((fe, fm, t) # ticks) st =
     (fst (auto_screenshot True fe fm t st) # fst (run_ticks ticks (snd (auto_screenshot True fe fm t st))),
      snd (run_ticks ticks (snd (auto_screenshot True fe fm t st))))"
  by (simp add: case_prod_unfold Let_def)

lemma stress_tick_quiet:
  assumes "map_of fm ''stress'' = Some stress" and "0.85 \<le> stress"
    and "\<not> (3 \<le> stress_counter st + 1 \<and> 10 \<le> t - last_shot st ''STRESS'')"
  shows "stress_counter (snd (auto_screenshot True fe fm t st)) = stress_counter st + 1"
    and "last_shot (snd (auto_screenshot True fe fm t st)) ''STRESS'' = last_shot st ''STRESS''"
    and "map_option fst (fst (auto_screenshot True fe fm t st)) \<noteq> Some ''STRESS''"
  using stress_tick(1-3) [OF assms(1) surjective_pairing, of fe t st] assms(2,3) by simp_all

lemma stress_tick_fires:
  assumes "map_of fm ''stress'' = Some stress" and "0.85 \<le> stress"
    and "3 \<le> stress_counter st + 1" and "10 \<le> t - last_shot st ''STRESS''"
  shows "stress_counter (snd (auto_screenshot True fe fm t st)) = 0"
    and "last_shot (snd (auto_screenshot True fe fm t st)) ''STRESS'' = t"
    and "fst (auto_screenshot True fe fm t st) = Some (''STRESS'', stress)"
  using stress_tick(1-4) [OF assms(1) surjective_pairing, of fe t st] assms(2-4) by simp_all

lemma stress_scenarios:
  assumes fm: "map_of fm1 ''stress'' = Some x1" "map_of fm2 ''stress'' = Some x2"
      "map_of fm3 ''stress'' = Some x3" "map_of fm4 ''stress'' = Some x4"
      "map_of fm5 ''stress'' = Some x5" "map_of fm6 ''stress'' = Some x6"
    and x: "0.85 \<le> x1" "0.85 \<le> x2" "0.85 \<le> x3" "0.85 \<le> x4" "0.85 \<le> x5" "0.85 \<le> x6"
    and start: "stress_counter st = 0"
    and cool: "10 \<le> t3 - last_shot st ''STRESS''"
    and soon: "t4 - t3 < 10" "t5 - t3 < 10" "t6 - t3 < 10"
  shows "filter (\<lambda>ev. map_option fst ev = Some ''STRESS'')
           (fst (run_ticks [(fe1, fm1, t1), (fe2, fm2, t2)] st)) = []"
    and "filter (\<lambda>ev. map_option fst ev = Some ''STRESS'')
           (fst (run_ticks [(fe1, fm1, t1), (fe2, fm2, t2), (fe3, fm3, t3)] st)) =
         [Some (''STRESS'', x3)]"
    and "filter (\<lambda>ev. map_option fst ev = Some ''STRESS'')
           (fst (run_ticks [(fe1, fm1, t1), (fe2, fm2, t2), (fe3, fm3, t3),
                            (fe4, fm4, t4), (fe5, fm5, t5), (fe6, fm6, t6)] st)) =
         [Some (''STRESS'', x3)]"
proof -
  define s1 where "s1 = snd (auto_screenshot True fe1 fm1 t1 st)"
  define s2 where "s2 = snd (auto_screenshot True fe2 fm2 t2 s1)"
  define s3 where "s3 = snd (auto_screenshot True fe3 fm3 t3 s2)"
  define s4 where "s4 = snd (auto_screenshot True fe4 fm4 t4 s3)"
  define s5 where "s5 = snd (auto_screenshot True fe5 fm5 t5 s4)"
  have k1: "stress_counter s1 = 1" "last_shot s1 ''STRESS'' = last_shot st ''STRESS''"
      "map_option fst (fst (auto_screenshot True fe1 fm1 t1 st)) \<noteq> Some ''STRESS''"
    unfolding s1_def using stress_tick_quiet [OF fm(1) x(1), of st t1 fe1] start by simp_all
  have k2: "stress_counter s2 = 2" "last_shot s2 ''STRESS'' = last_shot st ''STRESS''"
      "map_option fst (fst (auto_screenshot True fe2 fm2 t2 s1)) \<noteq> Some ''STRESS''"
    unfolding s2_def using stress_tick_quiet [OF fm(2) x(2), of s1 t2 fe2] k1 by simp_all
  have k3: "stress_counter s3 = 0" "last_shot s3 ''STRESS'' = t3"
      "fst (auto_screenshot True fe3 fm3 t3 s2) = Some (''STRESS'', x3)"
    unfolding s3_def using stress_tick_fires [OF fm(3) x(3), of s2 t3 fe3] k2 cool by simp_all
  have k4: "stress_counter s4 = 1" "last_shot s4 ''STRESS'' = t3"
      "map_option fst (fst (auto_screenshot True fe4 fm4 t4 s3)) \<noteq> Some ''STRESS''"
    unfolding s4_def using stress_tick_quiet [OF fm(4) x(4), of s3 t4 fe4] k3 by simp_all
  have k5: "stress_counter s5 = 2" "last_shot s5 ''STRESS'' = t3"
      "map_option fst (fst (auto_screenshot True fe5 fm5 t5 s4)) \<noteq> Some ''STRESS''"
    unfolding s5_def using stress_tick_quiet [OF fm(5) x(5), of s4 t5 fe5] k4 by simp_all
  have k6: "map_option fst (fst (auto_screenshot True fe6 fm6 t6 s5)) \<noteq> Some ''STRESS''"
    using stress_tick_quiet(3) [OF fm(6) x(6), of s5 t6 fe6] k5 soon(3) by simp
  show "filter (\<lambda>ev. map_option fst ev = Some ''STRESS'')
           (fst (run_ticks [(fe1, fm1, t1), (fe2, fm2, t2)] st)) = []"
    using k1(3) k2(3) by (simp add: run_ticks_Cons s1_def [symmetric] del: run_ticks.simps(2))
  show "filter (\<lambda>ev. map_option fst ev = Some ''STRESS'')
           (fst (run_ticks [(fe1, fm1, t1), (fe2, fm2, t2), (fe3, fm3, t3)] st)) =
         [Some (''STRESS'', x3)]"
    using k1(3) k2(3) k3(3)
    by (simp add: run_ticks_Cons s1_def [symmetric] s2_def [symmetric] del: run_ticks.simps(2))
  show "filter (\<lambda>ev. map_option fst ev = Some ''STRESS'')
           (fst (run_ticks [(fe1, fm1, t1), (fe2, fm2, t2), (fe3, fm3, t3),
                            (fe4, fm4, t4), (fe5, fm5, t5), (fe6, fm6, t6)] st)) =
         [Some (''STRESS'', x3)]"
    using k1(3) k2(3) k3(3) k4(3) k5(3) k6
    by (simp add: run_ticks_Cons s1_def [symmetric] s2_def [symmetric] s3_def [symmetric]
          s4_def [symmetric] s5_def [symmetric] del: run_ticks.simps(2))
qed


text \<open>
  Claim C2. For a tick whose metrics carry a stress value: the counter afterwards is 0
  when stress is below 0.85, and otherwise the incremented counter, unless the event
  fired, which resets it to 0. A STRESS event is recorded exactly when stress is at least
  0.85, the incremented counter has reached 3 (the code tests \<open>>= 3\<close>) and at least
  10 time units have passed since the last STRESS time; its score is the current stress,
  it is appended to the log, and the last STRESS time becomes the current time, which
  otherwise stays. From a counter of 0: two qualifying ticks record no STRESS event;
  three, with the cooldown satisfied at the third, record exactly one, at the third tick
  with that tick's stress as score; three more qualifying ticks within 10 time units of
  that event record no further STRESS event.
\<close>

theorem stress_trigger:
  "(map_of fm ''stress'' = Some stress \<longrightarrow>
      stress_counter (snd (auto_screenshot True fe fm t st)) =
        (if stress < 0.85 then 0
         else if 3 \<le> stress_counter st + 1 \<and> 10 \<le> t - last_shot st ''STRESS'' then 0
         else stress_counter st + 1) \<and>
      (map_option fst (fst (auto_screenshot True fe fm t st)) = Some ''STRESS'' \<longleftrightarrow>
         0.85 \<le> stress \<and> 3 \<le> stress_counter st + 1 \<and> 10 \<le> t - last_shot st ''STRESS'') \<and>
      (map_option fst (fst (auto_screenshot True fe fm t st)) = Some ''STRESS'' \<longrightarrow>
         fst (auto_screenshot True fe fm t st) = Some (''STRESS'', stress) \<and>
         screenshots (snd (auto_screenshot True fe fm t st)) =
           screenshots st @ [(''STRESS'', stress)]) \<and>
      last_shot (snd (auto_screenshot True fe fm t st)) ''STRESS'' =
        (if 0.85 \<le> stress \<and> 3 \<le> stress_counter st + 1 \<and> 10 \<le> t - last_shot st ''STRESS''
         then t else last_shot st ''STRESS''))
   \<and>
   (map_of fma ''stress'' = Some xa \<and> map_of fmb ''stress'' = Some xb \<and>
    map_of fmc ''stress'' = Some xc \<and> map_of fmd ''stress'' = Some xd \<and>
    map_of fme ''stress'' = Some xe \<and> map_of fmf ''stress'' = Some xf \<and>
    0.85 \<le> xa \<and> 0.85 \<le> xb \<and> 0.85 \<le> xc \<and> 0.85 \<le> xd \<and> 0.85 \<le> xe \<and> 0.85 \<le> xf \<and>
    stress_counter sta = 0 \<and> 10 \<le> tc - last_shot sta ''STRESS'' \<and>
    td - tc < 10 \<and> te - tc < 10 \<and> tf - tc < 10 \<longrightarrow>
      filter (\<lambda>ev. map_option fst ev = Some ''STRESS'')
        (fst (run_ticks [(fea, fma, ta), (feb, fmb, tb)] sta)) = [] \<and>
      filter (\<lambda>ev. map_option fst ev = Some ''STRESS'')
        (fst (run_ticks [(fea, fma, ta), (feb, fmb, tb), (fec, fmc, tc)] sta)) =
          [Some (''STRESS'', xc)] \<and>
      filter (\<lambda>ev. map_option fst ev = Some ''STRESS'')
        (fst (run_ticks [(fea, fma, ta), (feb, fmb, tb), (fec, fmc, tc),
                         (fed, fmd, td), (fee, fme, te), (fef, fmf, tf)] sta)) =
          [Some (''STRESS'', xc)])"
proof (intro conjI impI)
  assume fm: "map_of fm ''stress'' = Some stress"
  note tick = stress_tick [OF fm surjective_pairing, of fe t st]
  show "stress_counter (snd (auto_screenshot True fe fm t st)) =
        (if stress < 0.85 then 0
         else if 3 \<le> stress_counter st + 1 \<and> 10 \<le> t - last_shot st ''STRESS'' then 0
         else stress_counter st + 1)"
    unfolding tick(1) by (simp add: not_less)
  show "map_option fst (fst (auto_screenshot True fe fm t st)) = Some ''STRESS'' \<longleftrightarrow>
         0.85 \<le> stress \<and> 3 \<le> stress_counter st + 1 \<and> 10 \<le> t - last_shot st ''STRESS''"
    by (rule tick(3))
  show "last_shot (snd (auto_screenshot True fe fm t st)) ''STRESS'' =
        (if 0.85 \<le> stress \<and> 3 \<le> stress_counter st + 1 \<and> 10 \<le> t - last_shot st ''STRESS''
         then t else last_shot st ''STRESS'')"
    by (rule tick(2))
  assume ev: "map_option fst (fst (auto_screenshot True fe fm t st)) = Some ''STRESS''"
  with tick(4) show "fst (auto_screenshot True fe fm t st) = Some (''STRESS'', stress)"
    by blast
  with tick(5) show "screenshots (snd (auto_screenshot True fe fm t st)) =
           screenshots st @ [(''STRESS'', stress)]"
    by simp
next
  assume h: "map_of fma ''stress'' = Some xa \<and> map_of fmb ''stress'' = Some xb \<and>
    map_of fmc ''stress'' = Some xc \<and> map_of fmd ''stress'' = Some xd \<and>
    map_of fme ''stress'' = Some xe \<and> map_of fmf ''stress'' = Some xf \<and>
    0.85 \<le> xa \<and> 0.85 \<le> xb \<and> 0.85 \<le> xc \<and> 0.85 \<le> xd \<and> 0.85 \<le> xe \<and> 0.85 \<le> xf \<and>
    stress_counter sta = 0 \<and> 10 \<le> tc - last_shot sta ''STRESS'' \<and>
    td - tc < 10 \<and> te - tc < 10 \<and> tf - tc < 10"
  then have a: "map_of fma ''stress'' = Some xa" "map_of fmb ''stress'' = Some xb"
      "map_of fmc ''stress'' = Some xc" "map_of fmd ''stress'' = Some xd"
      "map_of fme ''stress'' = Some xe" "map_of fmf ''stress'' = Some xf"
      "0.85 \<le> xa" "0.85 \<le> xb" "0.85 \<le> xc" "0.85 \<le> xd" "0.85 \<le> xe" "0.85 \<le> xf"
      "stress_counter sta = 0" "10 \<le> tc - last_shot sta ''STRESS''"
      "td - tc < 10" "te - tc < 10" "tf - tc < 10"
    by blast+
  show "filter (\<lambda>ev. map_option fst ev = Some ''STRESS'')
        (fst (run_ticks [(fea, fma, ta), (feb, fmb, tb)] sta)) = []"
    by (rule stress_scenarios(1) [OF a])
  show "filter (\<lambda>ev. map_option fst ev = Some ''STRESS'')
        (fst (run_ticks [(fea, fma, ta), (feb, fmb, tb), (fec, fmc, tc)] sta)) =
          [Some (''STRESS'', xc)]"
    by (rule stress_scenarios(2) [OF a])
  show "filter (\<lambda>ev. map_option fst ev = Some ''STRESS'')
        (fst (run_ticks [(fea, fma, ta), (feb, fmb, tb), (fec, fmc, tc),
                         (fed, fmd, td), (fee, fme, te), (fef, fmf, tf)] sta)) =
          [Some (''STRESS'', xc)]"
    by (rule stress_scenarios(3) [OF a])
qed


theorem stress_trigger_witness:
  "fst (auto_screenshot True [(''happy'', 0.2), (''neutral'', 0.8)] [(''stress'', 0.9)] 100
          (session_init\<lparr>stress_counter := 2\<rparr>)) = Some (''STRESS'', 0.9) \<and>
   stress_counter (snd (auto_screenshot True [(''happy'', 0.2), (''neutral'', 0.8)]
          [(''stress'', 0.9)] 100 (session_init\<lparr>stress_counter := 2\<rparr>))) = 0 \<and>
   filter (\<lambda>ev. map_option fst ev = Some ''STRESS'')
     (fst (run_ticks [([], [(''stress'', 0.9)], 100), ([], [(''stress'', 0.9)], 101)]
        session_init)) = [] \<and>
   filter (\<lambda>ev. map_option fst ev = Some ''STRESS'')
     (fst (run_ticks [([], [(''stress'', 0.9)], 100), ([], [(''stress'', 0.9)], 101),
                      ([], [(''stress'', 0.9)], 102)] session_init)) =
     [Some (''STRESS'', 0.9)] \<and>
   filter (\<lambda>ev. map_option fst ev = Some ''STRESS'')
     (fst (run_ticks [([], [(''stress'', 0.9)], 100), ([], [(''stress'', 0.9)], 101),
                      ([], [(''stress'', 0.9)], 102), ([], [(''stress'', 0.9)], 103),
                      ([], [(''stress'', 0.9)], 104), ([], [(''stress'', 0.9)], 105)]
        session_init)) =
     [Some (''STRESS'', 0.9)]"
  using stress_trigger [where fm = "[(''stress'', 0.9)]" and stress = "0.9"
      and fe = "[(''happy'', 0.2), (''neutral'', 0.8)]" and t = 100
      and st = "session_init\<lparr>stress_counter := 2\<rparr>"
      and fma = "[(''stress'', 0.9)]" and fmb = "[(''stress'', 0.9)]"
      and fmc = "[(''stress'', 0.9)]" and fmd = "[(''stress'', 0.9)]"
      and fme = "[(''stress'', 0.9)]" and fmf = "[(''stress'', 0.9)]"
      and xa = "0.9" and xb = "0.9" and xc = "0.9" and xd = "0.9" and xe = "0.9" and xf = "0.9"
      and sta = session_init and ta = 100 and tb = 101 and tc = 102 and td = 103
      and te = 104 and tf = 105
      and fea = "[]" and feb = "[]" and fec = "[]" and fed = "[]" and fee = "[]" and fef = "[]"]
  by (simp add: session_init_def last_shot_def del: run_ticks.simps)

text \<open>
  Claim C10. In a tick where the STRESS condition fires (stress at least 0.85, counter
  reaching 3, cooldown elapsed) and the HAPPY condition holds too (dominant face label
  happy, confidence at least 0.75, HAPPY cooldown elapsed), exactly one event is logged,
  its type is STRESS with the stress as score, and the HAPPY time is nevertheless set to
  the current time.
\<close>

theorem stress_wins_over_happy:
  assumes "map_of fm ''stress'' = Some stress"
    and "0.85 \<le> stress" and "3 \<le> stress_counter st + 1"
    and "10 \<le> t - last_shot st ''STRESS''"
    and "dominant fe = Some ''happy''" and "0.75 \<le> dict_get fm ''confidence'' 0"
    and "10 \<le> t - last_shot st ''HAPPY''"
  shows "fst (auto_screenshot True fe fm t st) = Some (''STRESS'', stress) \<and>
         screenshots (snd (auto_screenshot True fe fm t st)) =
           screenshots st @ [(''STRESS'', stress)] \<and>
         last_screenshot_time (snd (auto_screenshot True fe fm t st)) ''HAPPY'' = Some t \<and>
         last_screenshot_time (snd (auto_screenshot True fe fm t st)) ''STRESS'' = Some t"
proof -
  define r1 where "r1 = stress_block stress t st"
  define r2 where "r2 = happy_block (dominant fe) fm t (snd r1)"
  define r3 where "r3 = distraction_block fm t (snd r2)"
  define e where "e = event_of stress (dominant fe) fm (snd r3)"
  have f1: "fst r1"
    using assms(2-4) by (simp add: r1_def stress_block_fst)
  have res: "auto_screenshot True fe fm t st =
      (Some e, (snd r3)\<lparr>screenshots := screenshots (snd r3) @ [e]\<rparr>)"
    using auto_screenshot_blocks [OF assms(1), of True fe t st] f1
    by (simp add: r1_def r2_def r3_def e_def Let_def)
  have tick: "fst (auto_screenshot True fe fm t st) = Some (''STRESS'', stress)"
      "screenshots (snd (auto_screenshot True fe fm t st)) = screenshots st @ [(''STRESS'', stress)]"
    using stress_tick(3-5) [OF assms(1) surjective_pairing, of fe t st] assms(2-4) by auto
  have t1: "last_screenshot_time (snd r1) = (last_screenshot_time st)(''STRESS'' \<mapsto> t)"
    using f1 by (simp add: r1_def stress_block_times)
  then have "last_shot (snd r1) ''HAPPY'' = last_shot st ''HAPPY''"
    by (simp add: last_shot_def)
  with assms(5-7) have f2: "fst r2"
    by (simp add: r2_def happy_block_fst)
  then have t2: "last_screenshot_time (snd r2) =
      (last_screenshot_time st)(''STRESS'' \<mapsto> t, ''HAPPY'' \<mapsto> t)"
    by (simp add: r2_def happy_block_times t1)
  have t3: "last_screenshot_time (snd r3) ''HAPPY'' = Some t"
      "last_screenshot_time (snd r3) ''STRESS'' = Some t"
    by (simp_all add: r3_def distraction_block_times t2)
  from tick t3 show ?thesis by (simp add: res)
qed

theorem stress_wins_over_happy_witness:
  "fst (auto_screenshot True [(''happy'', 0.8), (''neutral'', 0.2)]
     [(''stress'', 0.9), (''confidence'', 0.8), (''engagement'', 0.5)] 100
     (session_init\<lparr>stress_counter := 2\<rparr>)) = Some (''STRESS'', 0.9) \<and>
   screenshots (snd (auto_screenshot True [(''happy'', 0.8), (''neutral'', 0.2)]
     [(''stress'', 0.9), (''confidence'', 0.8), (''engagement'', 0.5)] 100
     (session_init\<lparr>stress_counter := 2\<rparr>))) = [(''STRESS'', 0.9)] \<and>
   last_screenshot_time (snd (auto_screenshot True [(''happy'', 0.8), (''neutral'', 0.2)]
     [(''stress'', 0.9), (''confidence'', 0.8), (''engagement'', 0.5)] 100
     (session_init\<lparr>stress_counter := 2\<rparr>))) ''HAPPY'' = Some 100"
proof -
  have d: "dominant [(''happy'', 0.8), (''neutral'', 0.2)] = Some ''happy''"
    by (simp add: dominant_def dict_get_def)
  show ?thesis
    using stress_wins_over_happy [of "[(''stress'', 0.9), (''confidence'', 0.8), (''engagement'', 0.5)]"
        "0.9" "session_init\<lparr>stress_counter := 2\<rparr>" 100 "[(''happy'', 0.8), (''neutral'', 0.2)]"] d
    by (simp add: last_shot_def dict_get_def session_init_def)
qed

section \<open>Properties of the fallback generator\<close>

lemma scenario_weights_keys:
  "set (map fst (scenario_weights scenario time_mod)) = set EMOTIONS"
  "distinct (map fst (scenario_weights scenario time_mod))"
  "length (scenario_weights scenario time_mod) = 7"
  by (auto simp: scenario_weights_def EMOTIONS_def)

lemma scenario_weights_floor:
  "list_all (\<lambda>v. 0.01 \<le> v) (map snd (scenario_weights scenario time_mod))"
  unfolding scenario_weights_def
  by (cases "scenario = ''happy''"; cases "scenario = ''stressed''")
     (simp_all only: if_True if_False list.map snd_conv list.pred_inject max.cobounded1 simp_thms)

lemma sum_list_floor:
  fixes vs :: "real list"
  shows "list_all (\<lambda>v. c \<le> v) vs \<Longrightarrow> c * real (length vs) \<le> sum_list vs"
  by (induction vs) (auto simp: algebra_simps)

lemma scenario_weights_total:
  "0 < sum_list (map snd (scenario_weights scenario time_mod))"
  using sum_list_floor [OF scenario_weights_floor, of scenario time_mod]
  by (simp add: scenario_weights_keys(3))

lemma sum_list_divide:
  fixes vs :: "real list"
  shows "sum_list (map (\<lambda>v. v / c) vs) = sum_list vs / c"
  by (induction vs) (simp_all add: add_divide_distrib)

lemma normalized_values:
  "map snd (map (\<lambda>(k, v). (k, v / tot)) (kvs :: emotions)) = map (\<lambda>v. v / tot) (map snd kvs)"
  "map fst (map (\<lambda>(k, v). (k, v / tot)) kvs) = map fst kvs"
  by (induction kvs) auto

lemma generate_face_emotions_fst:
  "fst (generate_face_emotions rnd self) =
     (let ws = scenario_weights (current_scenario self) (real (time_factor self + 1) * 0.1)
      in map (\<lambda>(k, v). (k, v / sum_list (map snd ws))) ws)"
  using scenario_weights_total [of "current_scenario self" "real (time_factor self + 1) * 0.1"]
  by (simp add: generate_face_emotions_def Let_def)

text \<open>
  Claim C3. Whatever the scenario, the tick and the draw, the mapping returned by
  \<open>generate_face_emotions\<close> has exactly the seven labels as keys, each once, every
  value is strictly positive, and the values sum to 1 (exactly, in real arithmetic);
  every unnormalized weight is at least 0.01.
\<close>

theorem fallback_face_emotions_distribution:
  "set (map fst (fst (generate_face_emotions rnd self))) = set EMOTIONS \<and>
   distinct (map fst (fst (generate_face_emotions rnd self))) \<and>
   length (fst (generate_face_emotions rnd self)) = 7 \<and>
   list_all (\<lambda>v. 0 < v) (map snd (fst (generate_face_emotions rnd self))) \<and>
   sum_list (map snd (fst (generate_face_emotions rnd self))) = 1 \<and>
   list_all (\<lambda>v. 0.01 \<le> v)
     (map snd (scenario_weights (current_scenario self) (real (time_factor self + 1) * 0.1)))"
proof -
  define ws where "ws = scenario_weights (current_scenario self) (real (time_factor self + 1) * 0.1)"
  define tot where "tot = sum_list (map snd ws)"
  have out: "fst (generate_face_emotions rnd self) = map (\<lambda>(k, v). (k, v / tot)) ws"
    by (simp add: generate_face_emotions_fst ws_def tot_def Let_def)
  have pos: "0 < tot"
    unfolding tot_def ws_def by (rule scenario_weights_total)
  have floor: "list_all (\<lambda>v. 0.01 \<le> v) (map snd ws)"
    unfolding ws_def by (rule scenario_weights_floor)
  have keys: "set (map fst ws) = set EMOTIONS" "distinct (map fst ws)" "length ws = 7"
    unfolding ws_def by (rule scenario_weights_keys)+
  have positive: "list_all (\<lambda>v. 0 < v) (map (\<lambda>v. v / tot) (map snd ws))"
    using floor pos by (auto simp: list_all_iff intro!: divide_pos_pos)
  have one: "sum_list (map (\<lambda>v. v / tot) (map snd ws)) = 1"
    unfolding sum_list_divide using pos by (simp add: tot_def)
  show ?thesis
    unfolding out normalized_values length_map ws_def [symmetric]
    by (intro conjI keys positive one floor)
qed

lemma generate_face_emotions_timer:
  "scenario_timer (snd (generate_face_emotions rnd self)) =
     (if 20 < scenario_timer self + 1 then 0 else scenario_timer self + 1)"
  "current_scenario (snd (generate_face_emotions rnd self)) =
     (if 20 < scenario_timer self + 1 then random_choice rnd [''normal'', ''happy'', ''stressed'']
      else current_scenario self)"
  by (simp_all add: generate_face_emotions_def Let_def)

lemma generate_all_append:
  "generate_all (xs @ ys) self = generate_all ys (generate_all xs self)"
  by (induction xs arbitrary: self) simp_all

lemma scenario_kept_below_21:
  "scenario_timer self + length rnds \<le> 20 \<Longrightarrow>
     current_scenario (generate_all rnds self) = current_scenario self \<and>
     scenario_timer (generate_all rnds self) = scenario_timer self + length rnds"
proof (induction rnds arbitrary: self)
  case Nil
  then show ?case by simp
next
  case (Cons rnd rnds)
  let ?s = "snd (generate_face_emotions rnd self)"
  from Cons.prems have step: "scenario_timer ?s = scenario_timer self + 1"
      "current_scenario ?s = current_scenario self"
    by (simp_all add: generate_face_emotions_timer)
  with Cons.prems have "scenario_timer ?s + length rnds \<le> 20" by simp
  from Cons.IH [OF this] step show ?case by simp
qed

text \<open>
  Claim C8, evaluated on the code: a fresh generator whose draws all pick "happy" is
  still in scenario "normal" after 20 calls, with the timer at 20; it is the 21st call
  that changes the scenario and resets the timer, since the test is
  \<open>scenario_timer > 20\<close>.
\<close>

theorem scenario_changes_on_call_21:
  "current_scenario (generate_all (replicate 20 1) generator_init) = ''normal'' \<and>
   scenario_timer (generate_all (replicate 20 1) generator_init) = 20 \<and>
   current_scenario (generate_all (replicate 21 1) generator_init) = ''happy'' \<and>
   scenario_timer (generate_all (replicate 21 1) generator_init) = 0"
proof -
  have init: "scenario_timer generator_init = 0" "current_scenario generator_init = ''normal''"
    by (simp_all add: generator_init_def)
  have twenty: "current_scenario (generate_all (replicate 20 1) generator_init) = ''normal''"
      "scenario_timer (generate_all (replicate 20 1) generator_init) = 20"
    using scenario_kept_below_21 [of generator_init "replicate 20 1"] init by simp_all
  have split: "replicate 21 (1::nat) = replicate 20 1 @ [1]"
    using replicate_add [of 20 1 "1::nat"] by simp
  have next_call: "generate_all (replicate 21 1) generator_init =
      snd (generate_face_emotions 1 (generate_all (replicate 20 1) generator_init))"
    unfolding split generate_all_append by simp
  show ?thesis
    unfolding next_call generate_face_emotions_timer twenty
    by (simp add: random_choice_def)
qed

section \<open>Negative scores, session aggregates and the candidate filter\<close>

text \<open>
  Claim C5 fails for \<open>calculate_negative_score\<close> of utils.py: on the mapping with
  sad = 1 and every other label 0 it returns 1, not 0.4.
\<close>

theorem utils_negative_score_unweighted:
  "calculate_negative_score
     [(''angry'', 0), (''disgust'', 0), (''fear'', 0), (''happy'', 0), (''sad'', 1),
      (''surprise'', 0), (''neutral'', 0)] = 1 \<and>
   calculate_negative_score
     [(''angry'', 0), (''disgust'', 0), (''fear'', 0), (''happy'', 0), (''sad'', 1),
      (''surprise'', 0), (''neutral'', 0)] \<noteq>
   0.4 * dict_get [(''angry'', 0), (''disgust'', 0), (''fear'', 0), (''happy'', 0), (''sad'', 1),
      (''surprise'', 0), (''neutral'', 0)] ''sad'' 0 +
   0.3 * dict_get [(''angry'', 0), (''disgust'', 0), (''fear'', 0), (''happy'', 0), (''sad'', 1),
      (''surprise'', 0), (''neutral'', 0)] ''angry'' 0 +
   0.2 * dict_get [(''angry'', 0), (''disgust'', 0), (''fear'', 0), (''happy'', 0), (''sad'', 1),
      (''surprise'', 0), (''neutral'', 0)] ''fear'' 0 +
   0.1 * dict_get [(''angry'', 0), (''disgust'', 0), (''fear'', 0), (''happy'', 0), (''sad'', 1),
      (''surprise'', 0), (''neutral'', 0)] ''disgust'' 0"
  by (simp add: calculate_negative_score_def dict_get_def)

text \<open>
  Claim C5, amended. The detector's \<open>_calculate_negative_score\<close> is
  0.4 sad + 0.3 angry + 0.2 fear + 0.1 disgust, and \<open>calculate_negative_score\<close> of
  utils.py is the unweighted sum angry + disgust + fear + sad; a missing label counts
  as 0 in both.
\<close>

theorem negative_scores:
  "face_calculate_negative_score emotions =
     0.4 * (case map_of emotions ''sad'' of None \<Rightarrow> 0 | Some v \<Rightarrow> v) +
     0.3 * (case map_of emotions ''angry'' of None \<Rightarrow> 0 | Some v \<Rightarrow> v) +
     0.2 * (case map_of emotions ''fear'' of None \<Rightarrow> 0 | Some v \<Rightarrow> v) +
     0.1 * (case map_of emotions ''disgust'' of None \<Rightarrow> 0 | Some v \<Rightarrow> v) \<and>
   calculate_negative_score emotions =
     (case map_of emotions ''angry'' of None \<Rightarrow> 0 | Some v \<Rightarrow> v) +
     (case map_of emotions ''disgust'' of None \<Rightarrow> 0 | Some v \<Rightarrow> v) +
     (case map_of emotions ''fear'' of None \<Rightarrow> 0 | Some v \<Rightarrow> v) +
     (case map_of emotions ''sad'' of None \<Rightarrow> 0 | Some v \<Rightarrow> v)"
  by (simp add: face_calculate_negative_score_def calculate_negative_score_def dict_get_def)

text \<open>
  Claim C9. On every empty DataFrame (no rows, or no columns) the quality score is 0
  and the analytics are the empty dict; both functions return before the \<open>try\<close>
  block, so nothing can be raised.
\<close>

theorem empty_session_aggregates:
  "df_empty df \<Longrightarrow>
     calculate_session_quality_score df = 0 \<and> calculate_session_analytics df = []"
  by (simp add: calculate_session_quality_score_def calculate_session_analytics_def)

theorem empty_session_aggregates_witness:
  "df_empty \<lparr>index_len = 0, columns = [(''timestamp'', []), (''stress'', []), (''engagement'', [])]\<rparr> \<and>
   calculate_session_quality_score
     \<lparr>index_len = 0, columns = [(''timestamp'', []), (''stress'', []), (''engagement'', [])]\<rparr> = 0 \<and>
   calculate_session_analytics
     \<lparr>index_len = 0, columns = [(''timestamp'', []), (''stress'', []), (''engagement'', [])]\<rparr> = []"
proof -
  have e: "df_empty \<lparr>index_len = 0,
             columns = [(''timestamp'', []), (''stress'', []), (''engagement'', [])]\<rparr>"
    by (simp add: df_empty_def)
  from e empty_session_aggregates [OF e] show ?thesis by simp
qed

lemma valid_face_iff_spec:
  "valid_face (h, w) (x, y, fw, fh) \<longleftrightarrow>
     \<not> spec_discards 81 (h, w) (x, y, fw, fh) \<and>
     x \<noteq> 0 \<and> y \<noteq> 0 \<and> x + fw \<noteq> w \<and> y + fh \<noteq> h \<and>
     real_of_int fw \<noteq> real_of_int w * 0.8 \<and> real_of_int fh \<noteq> real_of_int h * 0.8"
  by (auto simp: valid_face_def spec_discards_def)

lemma spec_discards_invalid:
  "spec_discards 81 frame_shape fc \<Longrightarrow> \<not> valid_face frame_shape fc"
  by (cases frame_shape; cases fc) (auto simp: valid_face_def spec_discards_def)

lemma select_single:
  "select_best_face [fc] frame_shape self =
     (if valid_face frame_shape fc
      then (let best = (if face_history self \<noteq> [] then blend_faces fc (last (face_history self)) else fc)
            in (Some best, self\<lparr>face_history := deque_append 3 (face_history self) best\<rparr>))
      else (None, self))"
  by (simp add: select_best_face_def Let_def)

lemma covers_ninety_percent_area:
  assumes "real_of_int (fw * fh) \<ge> 0.9 * 640 * 480"
  shows "\<not> valid_face (480, 640) (x, y, fw, fh)"
proof
  assume v: "valid_face (480, 640) (x, y, fw, fh)"
  then have b: "0 < fw" "fw < 512" "0 < fh" "fh < 384"
    by (auto simp: valid_face_def)
  then have "fw * fh < 512 * 384"
    by (intro mult_strict_mono) auto
  then have "real_of_int (fw * fh) < real_of_int (512 * 384)"
    unfolding of_int_less_iff .
  with assms show False by simp
qed

text \<open>
  Claim C6, amended. A candidate passes the filter exactly when the specification's
  three reasons do not discard it (minimum size 81, that is width and height above 80)
  and, in addition, it does not touch the frame border (x and y are not 0, the right and
  lower edges are not on the frame's) and is not exactly 80 percent of a frame
  dimension. So every box the specification discards is discarded. A single rejected
  candidate makes \<open>_select_best_face\<close> return None and leave the detector as it is; a
  single accepted one is returned by a fresh detector. On a 640 by 480 frame a candidate
  covering 90 percent of the width, of the height or of the area is rejected, and the
  candidate of half the width and height at (160, 120) is accepted, as is the candidate
  of 452 by 340 at (50, 50), which covers half the area.
\<close>

theorem candidate_filter:
  "((x, y, fw, fh) \<in> set (filter (valid_face (h, w)) faces) \<longleftrightarrow>
      (x, y, fw, fh) \<in> set faces \<and> \<not> spec_discards 81 (h, w) (x, y, fw, fh) \<and>
      x \<noteq> 0 \<and> y \<noteq> 0 \<and> x + fw \<noteq> w \<and> y + fh \<noteq> h \<and>
      real_of_int fw \<noteq> real_of_int w * 0.8 \<and> real_of_int fh \<noteq> real_of_int h * 0.8) \<and>
   (spec_discards 81 (h, w) fc \<longrightarrow> fc \<notin> set (filter (valid_face (h, w)) faces)) \<and>
   (\<not> valid_face (h, w) fc \<longrightarrow> select_best_face [fc] (h, w) self = (None, self)) \<and>
   (valid_face (h, w) fc \<longrightarrow>
      select_best_face [fc] (h, w) detector_init =
        (Some fc, detector_init\<lparr>face_history := [fc]\<rparr>)) \<and>
   (576 \<le> fw \<or> 432 \<le> fh \<or> 0.9 * 640 * 480 \<le> real_of_int (fw * fh) \<longrightarrow>
      select_best_face [(x, y, fw, fh)] (480, 640) self = (None, self)) \<and>
   select_best_face [(160, 120, 320, 240)] (480, 640) detector_init =
     (Some (160, 120, 320, 240), detector_init\<lparr>face_history := [(160, 120, 320, 240)]\<rparr>) \<and>
   select_best_face [(50, 50, 452, 340)] (480, 640) detector_init =
     (Some (50, 50, 452, 340), detector_init\<lparr>face_history := [(50, 50, 452, 340)]\<rparr>)"
proof (intro conjI impI)
  show "(x, y, fw, fh) \<in> set (filter (valid_face (h, w)) faces) \<longleftrightarrow>
      (x, y, fw, fh) \<in> set faces \<and> \<not> spec_discards 81 (h, w) (x, y, fw, fh) \<and>
      x \<noteq> 0 \<and> y \<noteq> 0 \<and> x + fw \<noteq> w \<and> y + fh \<noteq> h \<and>
      real_of_int fw \<noteq> real_of_int w * 0.8 \<and> real_of_int fh \<noteq> real_of_int h * 0.8"
    unfolding set_filter mem_Collect_eq valid_face_iff_spec by blast
  show "fc \<notin> set (filter (valid_face (h, w)) faces)" if "spec_discards 81 (h, w) fc"
    using spec_discards_invalid [OF that] by simp
  show "select_best_face [fc] (h, w) self = (None, self)" if "\<not> valid_face (h, w) fc"
    using that by (simp add: select_single)
  show "select_best_face [fc] (h, w) detector_init =
        (Some fc, detector_init\<lparr>face_history := [fc]\<rparr>)" if "valid_face (h, w) fc"
    using that by (simp add: select_single detector_init_def deque_append_def Let_def)
  show "select_best_face [(x, y, fw, fh)] (480, 640) self = (None, self)"
    if big: "576 \<le> fw \<or> 432 \<le> fh \<or> 0.9 * 640 * 480 \<le> real_of_int (fw * fh)"
  proof -
    have "\<not> valid_face (480, 640) (x, y, fw, fh)"
    proof (cases "0.9 * 640 * 480 \<le> real_of_int (fw * fh)")
      case True
      then show ?thesis by (rule covers_ninety_percent_area)
    next
      case False
      with big show ?thesis by (auto simp: valid_face_def)
    qed
    then show ?thesis by (simp add: select_single)
  qed
  show "select_best_face [(160, 120, 320, 240)] (480, 640) detector_init =
     (Some (160, 120, 320, 240), detector_init\<lparr>face_history := [(160, 120, 320, 240)]\<rparr>)"
    by (simp add: select_single valid_face_def detector_init_def deque_append_def Let_def)
  show "select_best_face [(50, 50, 452, 340)] (480, 640) detector_init =
     (Some (50, 50, 452, 340), detector_init\<lparr>face_history := [(50, 50, 452, 340)]\<rparr>)"
    by (simp add: select_single valid_face_def detector_init_def deque_append_def Let_def)
qed

theorem candidate_filter_witness:
  "select_best_face [(32, 24, 576, 432)] (480, 640) detector_init = (None, detector_init) \<and>
   (100, 100, 200, 200) \<in> set (filter (valid_face (480, 640)) [(100, 100, 200, 200), (0, 0, 100, 100)]) \<and>
   (0, 0, 100, 100) \<notin> set (filter (valid_face (480, 640)) [(100, 100, 200, 200), (0, 0, 100, 100)]) \<and>
   (5, 5, 700, 100) \<notin> set (filter (valid_face (480, 640)) [(5, 5, 700, 100)]) \<and>
   select_best_face [(100, 100, 200, 200)] (480, 640) detector_init =
     (Some (100, 100, 200, 200), detector_init\<lparr>face_history := [(100, 100, 200, 200)]\<rparr>)"
proof -
  note a = candidate_filter [of 32 24 576 432 480 640 "[(32, 24, 576, 432)]" "(5, 5, 700, 100)" detector_init]
  note b = candidate_filter [of 100 100 200 200 480 640 "[(100, 100, 200, 200), (0, 0, 100, 100)]"
      "(100, 100, 200, 200)" detector_init]
  note c = candidate_filter [of 0 0 100 100 480 640 "[(100, 100, 200, 200), (0, 0, 100, 100)]"
      "(5, 5, 700, 100)" detector_init]
  note d = candidate_filter [of 5 5 700 100 480 640 "[(5, 5, 700, 100)]"
      "(5, 5, 700, 100)" detector_init]
  have v: "valid_face (480, 640) (100, 100, 200, 200)"
    by (simp add: valid_face_def)
  have s: "spec_discards 81 (480, 640) (5, 5, 700, 100)"
    "\<not> spec_discards 81 (480, 640) (100, 100, 200, 200)"
    by (simp_all add: spec_discards_def)
  show ?thesis
    using a b c d v s by simp
qed

text \<open>
  Claim C6 fails on a box in the frame's corner: (0, 0, 100, 100) on a 640 by 480 frame
  is not below the minimum size, does not extend outside the frame and covers less than
  80 percent of either dimension, yet the filter discards it.
\<close>

theorem edge_box_discarded:
  "\<not> spec_discards 81 (480, 640) (0, 0, 100, 100) \<and>
   filter (valid_face (480, 640)) [(0, 0, 100, 100)] = [] \<and>
   select_best_face [(0, 0, 100, 100)] (480, 640) detector_init = (None, detector_init)"
  by (simp add: spec_discards_def valid_face_def select_best_face_def)

section \<open>The weights of the stabilizer\<close>

lemma smooth_emotion_three:
  "smooth_emotion [a, b, c] k = 0.3 * dict_get a k 0 + 0.7 * dict_get b k 0"
  by (simp add: smooth_emotion_def last_n_def)

lemma smooth_emotion_four:
  "smooth_emotion [a, b, c, d] k =
     0.1 * dict_get a k 0 + 0.2 * dict_get b k 0 + 0.3 * dict_get c k 0 + 0.4 * dict_get d k 0"
  by (simp add: smooth_emotion_def last_n_def)

lemma smooth_emotion_five:
  "smooth_emotion [a, b, c, d, e] k =
     0.1 * dict_get a k 0 + 0.2 * dict_get b k 0 + 0.3 * dict_get c k 0 + 0.4 * dict_get d k 0"
  by (simp add: smooth_emotion_def last_n_def)

lemma stable_emotions_three:
  assumes "emotion_history self = [a, b]" and "cur \<noteq> []"
  shows "fst (get_stable_emotions (Some cur) self) =
           map (\<lambda>k. (k, 0.3 * dict_get a k 0 + 0.7 * dict_get b k 0)) (map fst cur)"
  using assms
  by (simp add: get_stable_emotions_def deque_append_def Let_def smooth_emotion_three)

lemma stable_emotions_five:
  assumes "emotion_history self = [a, b, c, d] \<or> emotion_history self = [z, a, b, c, d]"
    and "cur \<noteq> []"
  shows "fst (get_stable_emotions (Some cur) self) =
           map (\<lambda>k. (k, 0.1 * dict_get a k 0 + 0.2 * dict_get b k 0 +
                         0.3 * dict_get c k 0 + 0.4 * dict_get d k 0)) (map fst cur)"
  using assms
  by (auto simp: get_stable_emotions_def deque_append_def Let_def smooth_emotion_five)

text \<open>
  Claim C1, evaluated on the code. A fresh stabilizer is fed "neutral" four times and
  then "happy" (each with probability 1): the history holds 5 entries, the four weights
  fall on the four oldest, and the fifth output is "neutral" with probability 1, the
  most recent entry having weight 0. Fed "neutral", "neutral", "happy", the history
  holds 3 entries, the weights 0.3 and 0.7 go to the two oldest, and the third output
  is again "neutral" with probability 1.
\<close>

theorem newest_sample_ignored:
  "fst (stabilize_all
     [Some [(''angry'', 0), (''disgust'', 0), (''fear'', 0), (''happy'', 0), (''sad'', 0),
            (''surprise'', 0), (''neutral'', 1)],
      Some [(''angry'', 0), (''disgust'', 0), (''fear'', 0), (''happy'', 0), (''sad'', 0),
            (''surprise'', 0), (''neutral'', 1)],
      Some [(''angry'', 0), (''disgust'', 0), (''fear'', 0), (''happy'', 0), (''sad'', 0),
            (''surprise'', 0), (''neutral'', 1)],
      Some [(''angry'', 0), (''disgust'', 0), (''fear'', 0), (''happy'', 0), (''sad'', 0),
            (''surprise'', 0), (''neutral'', 1)],
      Some [(''angry'', 0), (''disgust'', 0), (''fear'', 0), (''happy'', 1), (''sad'', 0),
            (''surprise'', 0), (''neutral'', 0)]] detector_init) ! 4 =
   [(''angry'', 0), (''disgust'', 0), (''fear'', 0), (''happy'', 0), (''sad'', 0),
    (''surprise'', 0), (''neutral'', 1)] \<and>
   fst (stabilize_all
     [Some [(''angry'', 0), (''disgust'', 0), (''fear'', 0), (''happy'', 0), (''sad'', 0),
            (''surprise'', 0), (''neutral'', 1)],
      Some [(''angry'', 0), (''disgust'', 0), (''fear'', 0), (''happy'', 0), (''sad'', 0),
            (''surprise'', 0), (''neutral'', 1)],
      Some [(''angry'', 0), (''disgust'', 0), (''fear'', 0), (''happy'', 1), (''sad'', 0),
            (''surprise'', 0), (''neutral'', 0)]] detector_init) ! 2 =
   [(''angry'', 0), (''disgust'', 0), (''fear'', 0), (''happy'', 0), (''sad'', 0),
    (''surprise'', 0), (''neutral'', 1)]"
  by (simp add: get_stable_emotions_def deque_append_def detector_init_def Let_def
        smooth_emotion_three smooth_emotion_four smooth_emotion_five dict_get_def)

text \<open>
  Claim C7, evaluated on the code: after one "sad" input, "happy" is fed four
  consecutive times. The output of the fourth is 0.9 happy and 0.1 sad, not the input:
  the history holds five entries and the four weights fall on the oldest four.
\<close>

theorem fourth_repeat_not_converged:
  "fst (stabilize_all
     [Some [(''angry'', 0), (''disgust'', 0), (''fear'', 0), (''happy'', 0), (''sad'', 1),
            (''surprise'', 0), (''neutral'', 0)],
      Some [(''angry'', 0), (''disgust'', 0), (''fear'', 0), (''happy'', 1), (''sad'', 0),
            (''surprise'', 0), (''neutral'', 0)],
      Some [(''angry'', 0), (''disgust'', 0), (''fear'', 0), (''happy'', 1), (''sad'', 0),
            (''surprise'', 0), (''neutral'', 0)],
      Some [(''angry'', 0), (''disgust'', 0), (''fear'', 0), (''happy'', 1), (''sad'', 0),
            (''surprise'', 0), (''neutral'', 0)],
      Some [(''angry'', 0), (''disgust'', 0), (''fear'', 0), (''happy'', 1), (''sad'', 0),
            (''surprise'', 0), (''neutral'', 0)]] detector_init) ! 4 =
   [(''angry'', 0), (''disgust'', 0), (''fear'', 0), (''happy'', 0.9), (''sad'', 0.1),
    (''surprise'', 0), (''neutral'', 0)]"
  by (simp add: get_stable_emotions_def deque_append_def detector_init_def Let_def
        smooth_emotion_three smooth_emotion_four smooth_emotion_five dict_get_def)


text \<open>What does hold: the fifth consecutive identical input is returned unchanged,
  whatever the history was before.\<close>

lemma history_step:
  "v \<noteq> [] \<Longrightarrow>
     emotion_history (snd (get_stable_emotions (Some v) s)) = deque_append 5 (emotion_history s) v"
  by (simp add: get_stable_emotions_def Let_def)

lemma deque_append_suffix:
  assumes "length h \<le> 5" and "h = xs @ replicate j v" and "j \<le> 4"
  shows "\<exists>ys. deque_append 5 h v = ys @ replicate (Suc j) v \<and> length (deque_append 5 h v) \<le> 5"
proof (cases "length h < 5")
  case True
  with assms(2) have "deque_append 5 h v = xs @ replicate (Suc j) v"
    by (simp add: deque_append_def replicate_append_same)
  moreover from True have "length (deque_append 5 h v) \<le> 5"
    by (simp add: deque_append_def)
  ultimately show ?thesis by blast
next
  case False
  with assms have "xs \<noteq> []" by auto
  with assms(2) have "tl h = tl xs @ replicate j v" by simp
  with False have "deque_append 5 h v = tl xs @ replicate (Suc j) v"
    by (simp add: deque_append_def replicate_append_same)
  moreover from False assms(1) have "length (deque_append 5 h v) \<le> 5"
    by (simp add: deque_append_def)
  ultimately show ?thesis by blast
qed

lemma history_suffix_after:
  assumes "v \<noteq> []"
  shows "length (emotion_history s) \<le> 5 \<Longrightarrow> emotion_history s = xs @ replicate j v \<Longrightarrow>
         j + n \<le> 5 \<Longrightarrow>
         \<exists>ys. emotion_history (snd (stabilize_all (replicate n (Some v)) s)) =
                 ys @ replicate (j + n) v \<and>
              length (emotion_history (snd (stabilize_all (replicate n (Some v)) s))) \<le> 5"
proof (induction n arbitrary: s xs j)
  case 0
  then show ?case by auto
next
  case (Suc n)
  let ?s1 = "snd (get_stable_emotions (Some v) s)"
  from Suc.prems have "j \<le> 4" by simp
  from deque_append_suffix [OF Suc.prems(1,2) this]
  obtain ys where ys: "emotion_history ?s1 = ys @ replicate (Suc j) v"
      "length (emotion_history ?s1) \<le> 5"
    by (auto simp: history_step [OF assms])
  from Suc.prems(3) have "Suc j + n \<le> 5" by simp
  from Suc.IH [OF ys(2) ys(1) this]
  show ?case by (simp add: case_prod_unfold Let_def)
qed

lemma identical_history_output:
  assumes "v \<noteq> []" and "distinct (map fst v)" and "emotion_history s = ys @ replicate 4 v"
    and "length (emotion_history s) \<le> 5"
  shows "fst (get_stable_emotions (Some v) s) = v"
    and "emotion_history (snd (get_stable_emotions (Some v) s)) = replicate 5 v"
proof -
  from assms(3,4) have "ys = [] \<or> (\<exists>y. ys = [y])"
    by (cases ys) auto
  then have h: "deque_append 5 (emotion_history s) v = [v, v, v, v, v]"
    using assms(3) by (auto simp: deque_append_def numeral_eq_Suc)
  have keys: "map (\<lambda>k. (k, dict_get v k 0)) (map fst v) = v"
  proof (rule nth_equalityI)
    show "length (map (\<lambda>k. (k, dict_get v k 0)) (map fst v)) = length v" by simp
    fix i assume "i < length (map (\<lambda>k. (k, dict_get v k 0)) (map fst v))"
    then have i: "i < length v" by simp
    then have "map_of v (fst (v ! i)) = Some (snd (v ! i))"
      using assms(2) by (intro map_of_is_SomeI) (auto simp: in_set_conv_nth)
    with i show "map (\<lambda>k. (k, dict_get v k 0)) (map fst v) ! i = v ! i"
      by (simp add: dict_get_def)
  qed
  have sm: "smooth_emotion [v, v, v, v, v] k = dict_get v k 0" for k
    by (simp add: smooth_emotion_five)
  have "fst (get_stable_emotions (Some v) s) =
          map (\<lambda>k. (k, smooth_emotion [v, v, v, v, v] k)) (map fst v)"
    using assms(1) by (simp add: get_stable_emotions_def Let_def h)
  also have "\<dots> = map (\<lambda>k. (k, dict_get v k 0)) (map fst v)"
    by (simp only: sm)
  also have "\<dots> = v" by (rule keys)
  finally show "fst (get_stable_emotions (Some v) s) = v" .
  show "emotion_history (snd (get_stable_emotions (Some v) s)) = replicate 5 v"
    unfolding history_step [OF assms(1)] h by (simp add: numeral_eq_Suc)
qed

lemma fifth_repeat_converged:
  assumes "v \<noteq> []" and "distinct (map fst v)" and "length (emotion_history s) \<le> 5"
  shows "fst (get_stable_emotions (Some v) (snd (stabilize_all (replicate 4 (Some v)) s))) = v"
proof -
  from history_suffix_after [OF assms(1) assms(3), of "emotion_history s" 0 4]
  obtain ys where "emotion_history (snd (stabilize_all (replicate 4 (Some v)) s)) = ys @ replicate 4 v"
      "length (emotion_history (snd (stabilize_all (replicate 4 (Some v)) s))) \<le> 5"
    by auto
  from identical_history_output(1) [OF assms(1,2) this] show ?thesis .
qed

end
